theory Spec2Isabelle
  imports Main "HOL-Library.Sublist" "HOL-Library.Word"
begin

section \<open>The media proxy of the exercise API\<close>

text \<open>
  The development embeds the two route handlers that \<^verbatim>\<open>initializeMediaProxy\<close>
  registers on \<^verbatim>\<open>/api/v1/media/:filename\<close>: the \<^verbatim>\<open>OPTIONS\<close> handler and the
  \<^verbatim>\<open>GET\<close> handler that validates the filename, reads the local media folder and
  falls back to the CDN.

  A handler is a function from the outside world (the file system and the CDN, as the
  results their calls give) and the request context to the response it returns together
  with the list of effects it performed, in the order it performed them. Every
  rejection of an awaited promise is a value \<open>Inl\<close> of a sum type, and every
  \<^verbatim>\<open>catch\<close> of the source is the \<open>Inl\<close> branch of a case distinction.

  The application registers its global middleware before the routes, and the first of
  them is \<^verbatim>\<open>cors({ origin: '*', allowMethods: ['GET', 'OPTIONS'] })\<close>. On a
  \<^verbatim>\<open>GET\<close> it acts on the pending response and calls the rest of the chain: a
  handler takes the headers it finds on the pending response as they are, whatever
  they are. On an \<^verbatim>\<open>OPTIONS\<close> it answers by itself; that path is embedded too.
\<close>

subsection \<open>Data\<close>

type_synonym bytes = "8 word list"

text \<open>
  A \<^verbatim>\<open>Headers\<close> object: at most one value per name. The source always writes a
  name with the same capitals, so names are compared as they are written.
\<close>

type_synonym headers = "string \<rightharpoonup> string"

text \<open>A JavaScript error as the handler reads it: \<^verbatim>\<open>.code\<close> and \<^verbatim>\<open>.message\<close>.\<close>

record js_error =
  code :: "string option"
  message :: string

text \<open>
  The body handed to the framework: nothing (\<^verbatim>\<open>null\<close>), a buffer, or the object
  \<^verbatim>\<open>{ success, message }\<close> serialised as JSON.
\<close>

datatype body = NoBody | Raw bytes | Json bool string

record response =
  status :: nat
  headers :: headers
  body :: body

text \<open>
  The part of the framework's context \<^verbatim>\<open>c\<close> that the handlers touch: the route
  parameter (\<^verbatim>\<open>c.req.param('filename')\<close>, possibly \<^verbatim>\<open>undefined\<close>) and the headers
  of the pending response (\<^verbatim>\<open>c.res.headers\<close>), which may already hold what earlier
  middleware has set.
\<close>

record ctx =
  param_filename :: "string option"
  res_headers :: headers

record axios_config =
  responseType :: string
  timeout :: nat
  user_agent :: string

record axios_response =
  resp_status :: nat
  resp_data :: bytes

text \<open>
  The outside world. \<open>resolve_media filename\<close> stands for
  \<^verbatim>\<open>path.resolve(process.cwd(), 'media', filename)\<close>. \<open>readFile\<close> is
  \<^verbatim>\<open>fs.readFile\<close>: the file's bytes, or the error the promise is rejected with.
  \<open>axios_get\<close> is \<^verbatim>\<open>axios.get\<close>: a response with its status, or the error
  the promise is rejected with; a transport failure and the expiry of the configured
  timeout are both rejections.
\<close>

record env =
  resolve_media :: "string \<Rightarrow> string"
  readFile :: "string \<Rightarrow> js_error + bytes"
  axios_get :: "string \<Rightarrow> axios_config \<Rightarrow> js_error + axios_response"

text \<open>The effects of a handler: the two I/O calls and \<^verbatim>\<open>console.error\<close>.\<close>

datatype event =
  ReadFile string
  | AxiosGet string axios_config
  | ConsoleError string string

fun is_local_read :: "event \<Rightarrow> bool" where
  "is_local_read (ReadFile p) = True"
| "is_local_read (AxiosGet u cfg) = False"
| "is_local_read (ConsoleError l m) = False"

fun is_remote_fetch :: "event \<Rightarrow> bool" where
  "is_remote_fetch (ReadFile p) = False"
| "is_remote_fetch (AxiosGet u cfg) = True"
| "is_remote_fetch (ConsoleError l m) = False"

subsection \<open>String tests\<close>

text \<open>
  \<^verbatim>\<open>String.prototype.includes\<close>: some position of the string starts an occurrence of
  the search string. \<^verbatim>\<open>String.prototype.endsWith\<close>: the search string is not longer
  than the string and equals its last characters.
\<close>

fun includes_str :: "string \<Rightarrow> string \<Rightarrow> bool" where
  "includes_str [] sub = (sub = [])"
| "includes_str (c # cs) sub = (take (length sub) (c # cs) = sub \<or> includes_str cs sub)"

definition endsWith :: "string \<Rightarrow> string \<Rightarrow> bool" where
  "endsWith s suf =
     (length suf \<le> length s \<and> drop (length s - length suf) s = suf)"

subsection \<open>The framework's responders\<close>

text \<open>\<^verbatim>\<open>c.res.headers.set(name, value)\<close>.\<close>

definition set_header :: "string \<Rightarrow> string \<Rightarrow> ctx \<Rightarrow> ctx" where
  "set_header name v c = c\<lparr>res_headers := (res_headers c)(name \<mapsto> v)\<rparr>"

text \<open>
  \<^verbatim>\<open>c.body(data, status)\<close> answers with the headers of the pending response as they
  stand; the status is 200 where the source gives none.
\<close>

definition c_body :: "ctx \<Rightarrow> bytes option \<Rightarrow> nat \<Rightarrow> response" where
  "c_body c data st =
     \<lparr>status = st, headers = res_headers c,
      body = (case data of None \<Rightarrow> NoBody | Some b \<Rightarrow> Raw b)\<rparr>"

text \<open>
  \<^verbatim>\<open>c.json(object, status)\<close> answers with the headers of the pending response too,
  but it is the JSON responder of the framework: it stamps its own content type on
  the response, over any \<^verbatim>\<open>Content-Type\<close> set before. The content type is
  \<^verbatim>\<open>application/json\<close> (older releases of the framework append a charset
  parameter to it).
\<close>

definition json_content_type :: string where
  "json_content_type = ''application/json''"

definition c_json :: "ctx \<Rightarrow> bool \<Rightarrow> string \<Rightarrow> nat \<Rightarrow> response" where
  "c_json c success msg st =
     \<lparr>status = st,
      headers = (res_headers c)(''Content-Type'' \<mapsto> json_content_type),
      body = Json success msg\<rparr>"

subsection \<open>The handlers\<close>

text \<open>The \<^verbatim>\<open>OPTIONS\<close> handler. It does not read the route parameter.\<close>

definition options_media :: "ctx \<Rightarrow> response \<times> event list" where
  "options_media c =
     (let c1 = set_header ''Access-Control-Allow-Origin'' ''*'' c;
          c2 = set_header ''Access-Control-Allow-Methods'' ''GET, OPTIONS'' c1;
          c3 = set_header ''Access-Control-Allow-Headers'' ''*'' c2
      in (c_body c3 None 204, []))"

text \<open>
  The test that guards the \<^verbatim>\<open>GET\<close> handler:
  \<^verbatim>\<open>!filename || filename.includes('..') || filename.includes('/') || !filename.endsWith('.gif')\<close>.
  An \<^verbatim>\<open>undefined\<close> parameter and the empty string are both falsy.
\<close>

definition invalid_filename :: "string option \<Rightarrow> bool" where
  "invalid_filename p =
     (case p of
        None \<Rightarrow> True
      | Some filename \<Rightarrow>
          filename = [] \<or> includes_str filename ''..'' \<or> includes_str filename ''/''
          \<or> \<not> endsWith filename ''.gif'')"

text \<open>The five headers set once the filename has passed the test.\<close>

definition set_media_headers :: "ctx \<Rightarrow> ctx" where
  "set_media_headers c =
     (let c1 = set_header ''Access-Control-Allow-Origin'' ''*'' c;
          c2 = set_header ''Access-Control-Allow-Methods'' ''GET, OPTIONS'' c1;
          c3 = set_header ''Access-Control-Allow-Headers'' ''*'' c2;
          c4 = set_header ''Content-Type'' ''image/gif'' c3
      in set_header ''Cache-Control'' ''public, max-age=31536000, immutable'' c4)"

definition cdn_url :: "string \<Rightarrow> string" where
  "cdn_url filename = ''https://v1.cdn.exercisedb.dev/media/'' @ filename"

definition cdn_config :: axios_config where
  "cdn_config =
     \<lparr>responseType = ''arraybuffer'', timeout = 15000,
      user_agent = ''Mozilla/5.0 (Windows NT 10.0; Win64; x64) AppleWebKit/537.36''\<rparr>"

text \<open>The inner \<^verbatim>\<open>try\<close>: the fetch from the CDN and its \<^verbatim>\<open>catch\<close>.\<close>

definition fetch_cdn :: "env \<Rightarrow> ctx \<Rightarrow> string \<Rightarrow> response \<times> event list" where
  "fetch_cdn e c filename =
     (let cdnUrl = cdn_url filename in
      case axios_get e cdnUrl cdn_config of
        Inr resp \<Rightarrow>
          (if resp_status resp \<noteq> 200
           then c_json c False ''Media not found'' 404
           else c_body c (Some (resp_data resp)) 200,
           [AxiosGet cdnUrl cdn_config])
      | Inl cdnError \<Rightarrow>
          (c_json c False ''Media not found'' 404,
           [AxiosGet cdnUrl cdn_config,
            ConsoleError ''Error fetching from CDN:'' (message cdnError)]))"

text \<open>
  The outer \<^verbatim>\<open>try\<close> on a filename that has passed the test: the read of the
  local file, and in its \<^verbatim>\<open>catch\<close> the log of an error other than
  \<^verbatim>\<open>ENOENT\<close>, then the fetch from the CDN.
\<close>

definition serve_media :: "env \<Rightarrow> ctx \<Rightarrow> string \<Rightarrow> response \<times> event list" where
  "serve_media e c filename =
     (let mediaPath = resolve_media e filename in
      case readFile e mediaPath of
        Inr fileData \<Rightarrow> (c_body c (Some fileData) 200, [ReadFile mediaPath])
      | Inl localError \<Rightarrow>
          (let logged =
                 (if code localError \<noteq> Some ''ENOENT''
                  then [ConsoleError ''Error reading local file:'' (message localError)]
                  else []);
               (res, fetched) = fetch_cdn e c filename
           in (res, ReadFile mediaPath # logged @ fetched)))"

text \<open>
  The \<^verbatim>\<open>GET\<close> handler. Past the guard the parameter is a string (the guard
  has rejected \<^verbatim>\<open>undefined\<close>), so \<open>the\<close> is only ever applied to \<open>Some\<close>.
\<close>

definition get_media :: "env \<Rightarrow> ctx \<Rightarrow> response \<times> event list" where
  "get_media e c =
     (if invalid_filename (param_filename c)
      then (c_json c False ''Invalid filename'' 400, [])
      else serve_media e (set_media_headers c) (the (param_filename c)))"

subsection \<open>The cors middleware in front of the routes\<close>

text \<open>The two methods the media route is registered for.\<close>

datatype http_method = GET | OPTIONS

text \<open>\<^verbatim>\<open>c.res.headers.delete(name)\<close> and \<^verbatim>\<open>c.res.headers.append(name, value)\<close>.\<close>

definition delete_header :: "string \<Rightarrow> ctx \<Rightarrow> ctx" where
  "delete_header name c = c\<lparr>res_headers := (res_headers c)(name := None)\<rparr>"

definition append_header :: "string \<Rightarrow> string \<Rightarrow> ctx \<Rightarrow> ctx" where
  "append_header name v c =
     c\<lparr>res_headers :=
         (res_headers c)
           (name \<mapsto> (case res_headers c name of None \<Rightarrow> v | Some old \<Rightarrow> old @ '', '' @ v))\<rparr>"

text \<open>\<^verbatim>\<open>names.join(',')\<close>.\<close>

fun join_comma :: "string list \<Rightarrow> string" where
  "join_comma [] = []"
| "join_comma [x] = x"
| "join_comma (x # y # ys) = x @ '','' @ join_comma (y # ys)"

text \<open>
  The framework's \<^verbatim>\<open>cors\<close> middleware with the options the application gives it
  (origin \<^verbatim>\<open>*\<close>, methods \<^verbatim>\<open>GET\<close> and \<^verbatim>\<open>OPTIONS\<close>, no list of allowed
  headers). It sets \<^verbatim>\<open>Access-Control-Allow-Origin\<close> on the pending response. On
  \<^verbatim>\<open>OPTIONS\<close> it then sets \<^verbatim>\<open>Access-Control-Allow-Methods\<close> to the methods joined
  by a comma, mirrors the names the request lists in
  \<^verbatim>\<open>Access-Control-Request-Headers\<close> (\<open>requested\<close>, empty when the request has no
  such header), deletes the content headers and returns a 204 without a body: it does
  not call \<open>next\<close>, the rest of the chain. On any other method it calls \<open>next\<close>.
\<close>

definition cors ::
  "http_method \<Rightarrow> string list \<Rightarrow> (ctx \<Rightarrow> response \<times> event list) \<Rightarrow> ctx
   \<Rightarrow> response \<times> event list" where
  "cors m requested next c =
     (let c1 = set_header ''Access-Control-Allow-Origin'' ''*'' c in
      if m = OPTIONS
      then
        (let c2 = set_header ''Access-Control-Allow-Methods''
                    (join_comma [''GET'', ''OPTIONS'']) c1;
             c3 = (if requested \<noteq> []
                   then append_header ''Vary'' ''Access-Control-Request-Headers''
                          (set_header ''Access-Control-Allow-Headers''
                             (join_comma requested) c2)
                   else c2);
             c4 = delete_header ''Content-Type'' (delete_header ''Content-Length'' c3)
         in (\<lparr>status = 204, headers = res_headers c4, body = NoBody\<rparr>, []))
      else next c1)"

text \<open>
  An \<^verbatim>\<open>OPTIONS\<close> request to the media route as the application answers it.
  \<^verbatim>\<open>initializeApp\<close> calls \<^verbatim>\<open>initializeGlobalMiddleware\<close> before
  \<^verbatim>\<open>initializeRoutes\<close>, so the chain starts with \<^verbatim>\<open>cors\<close> and ends with the
  route's handler. The three middleware registered after \<^verbatim>\<open>cors\<close> stand between
  the two; \<^verbatim>\<open>cors\<close> does not call the rest of the chain on \<^verbatim>\<open>OPTIONS\<close>, so
  they do not run for such a request and are left out here.
\<close>

definition options_request :: "string list \<Rightarrow> ctx \<Rightarrow> response \<times> event list" where
  "options_request requested c = cors OPTIONS requested options_media c"

subsection \<open>The specification's notions\<close>

text \<open>
  The specification rejects a name that is empty or absent, contains the two-character
  sequence \<^verbatim>\<open>..\<close>, contains the path separator \<^verbatim>\<open>/\<close>, or does not end with the
  literal suffix \<^verbatim>\<open>.gif\<close>. This predicate is written from those words, with the
  library's notions of a contiguous sublist and of a suffix; it is compared with
  \<open>invalid_filename\<close> below.
\<close>

definition spec_invalid :: "string option \<Rightarrow> bool" where
  "spec_invalid raw =
     (case raw of
        None \<Rightarrow> True
      | Some s \<Rightarrow>
          s = [] \<or> sublist ''..'' s \<or> CHR ''/'' \<in> set s \<or> \<not> suffix ''.gif'' s)"

text \<open>
  What the specification calls a remote failure, on the result of the call to the CDN:
  a rejection (a transport error, or the timeout) or a status other than 200.
\<close>

definition remote_failed :: "js_error + axios_response \<Rightarrow> bool" where
  "remote_failed r = (case r of Inl err \<Rightarrow> True | Inr resp \<Rightarrow> resp_status resp \<noteq> 200)"

subsection \<open>Sample worlds and requests\<close>

definition media_root :: "string \<Rightarrow> string" where
  "media_root filename = ''/app/media/'' @ filename"

definition enoent :: js_error where
  "enoent = \<lparr>code = Some ''ENOENT'', message = ''no such file or directory''\<rparr>"

definition eacces :: js_error where
  "eacces = \<lparr>code = Some ''EACCES'', message = ''permission denied''\<rparr>"

definition timed_out :: js_error where
  "timed_out =
     \<lparr>code = Some ''ECONNABORTED'', message = ''timeout of 15000ms exceeded''\<rparr>"

definition local_gif :: bytes where
  "local_gif = [0x47, 0x49, 0x46, 0x38, 0x39, 0x61]"

definition cdn_gif :: bytes where
  "cdn_gif = [0x47, 0x49, 0x46, 0x38, 0x37, 0x61]"

text \<open>Every file is in the local folder.\<close>

definition env_local_hit :: env where
  "env_local_hit =
     \<lparr>resolve_media = media_root,
      readFile = (\<lambda>p. Inr local_gif),
      axios_get = (\<lambda>u cfg. Inr \<lparr>resp_status = 200, resp_data = cdn_gif\<rparr>)\<rparr>"

text \<open>The local folder is empty and the CDN has every file.\<close>

definition env_cdn_hit :: env where
  "env_cdn_hit =
     \<lparr>resolve_media = media_root,
      readFile = (\<lambda>p. Inl enoent),
      axios_get = (\<lambda>u cfg. Inr \<lparr>resp_status = 200, resp_data = cdn_gif\<rparr>)\<rparr>"

text \<open>The local folder cannot be read and the CDN has every file.\<close>

definition env_unreadable :: env where
  "env_unreadable =
     \<lparr>resolve_media = media_root,
      readFile = (\<lambda>p. Inl eacces),
      axios_get = (\<lambda>u cfg. Inr \<lparr>resp_status = 200, resp_data = cdn_gif\<rparr>)\<rparr>"

text \<open>The local folder is empty and every request to the CDN times out.\<close>

definition env_cdn_down :: env where
  "env_cdn_down =
     \<lparr>resolve_media = media_root,
      readFile = (\<lambda>p. Inl enoent),
      axios_get = (\<lambda>u cfg. Inl timed_out)\<rparr>"

text \<open>The local folder cannot be read and the CDN answers 204 with no content.\<close>

definition env_cdn_no_content :: env where
  "env_cdn_no_content =
     \<lparr>resolve_media = media_root,
      readFile = (\<lambda>p. Inl eacces),
      axios_get = (\<lambda>u cfg. Inr \<lparr>resp_status = 204, resp_data = []\<rparr>)\<rparr>"

text \<open>The local folder is empty and the CDN answers 404.\<close>

definition env_cdn_404 :: env where
  "env_cdn_404 =
     \<lparr>resolve_media = media_root,
      readFile = (\<lambda>p. Inl enoent),
      axios_get = (\<lambda>u cfg. Inr \<lparr>resp_status = 404, resp_data = []\<rparr>)\<rparr>"

text \<open>A request whose pending response has no header yet.\<close>

definition fresh_ctx :: "string option \<Rightarrow> ctx" where
  "fresh_ctx p = \<lparr>param_filename = p, res_headers = Map.empty\<rparr>"

section \<open>Properties\<close>

subsection \<open>The string tests are the library's notions\<close>

lemma take_eq_prefix: "(take (length sub) s = sub) = prefix sub s"
  by (metis append_eq_conv_conj prefix_def)

lemma includes_str_sublist: "includes_str s sub = sublist sub s"
  by (induction s) (simp_all add: sublist_Cons_right take_eq_prefix del: take_Suc_Cons)

lemma endsWith_suffix: "endsWith s suf = suffix suf s"
proof
  assume "endsWith s suf"
  then have "drop (length s - length suf) s = suf"
    by (simp add: endsWith_def)
  then show "suffix suf s"
    by (metis suffix_drop)
next
  assume "suffix suf s"
  then obtain zs where "s = zs @ suf"
    by (auto simp: suffix_def)
  then show "endsWith s suf"
    by (simp add: endsWith_def)
qed

lemma sublist_single: "sublist [x] s = (x \<in> set s)"
  by (induction s) (auto simp: sublist_Cons_right prefix_Cons)

lemma invalid_filename_spec: "invalid_filename p = spec_invalid p"
  by (simp add: invalid_filename_def spec_invalid_def includes_str_sublist
      endsWith_suffix sublist_single split: option.split)

subsection \<open>The CDN fetch by cases\<close>

lemma fetch_cdn_cases:
  "fetch_cdn e c f =
     (case axios_get e (cdn_url f) cdn_config of
        Inr resp \<Rightarrow>
          (if resp_status resp = 200 then c_body c (Some (resp_data resp)) 200
           else c_json c False ''Media not found'' 404,
           [AxiosGet (cdn_url f) cdn_config])
      | Inl err \<Rightarrow>
          (c_json c False ''Media not found'' 404,
           [AxiosGet (cdn_url f) cdn_config,
            ConsoleError ''Error fetching from CDN:'' (message err)]))"
  by (simp add: fetch_cdn_def Let_def split: sum.split)

lemma fetch_cdn_failed:
  "remote_failed (axios_get e (cdn_url f) cdn_config) \<Longrightarrow>
   fst (fetch_cdn e c f) = c_json c False ''Media not found'' 404"
  by (simp add: fetch_cdn_cases remote_failed_def split: sum.splits)

lemma fetch_cdn_attempt: "AxiosGet (cdn_url f) cdn_config \<in> set (snd (fetch_cdn e c f))"
  by (simp add: fetch_cdn_cases split: sum.split)

subsection \<open>The handler on a filename that passed the test\<close>

lemma get_media_valid:
  "\<not> invalid_filename (param_filename c) \<Longrightarrow> param_filename c = Some f \<Longrightarrow>
   get_media e c = serve_media e (set_media_headers c) f"
  by (simp add: get_media_def)

lemma res_headers_set_media_headers:
  "res_headers (set_media_headers c) =
     (res_headers c)
       (''Access-Control-Allow-Origin'' \<mapsto> ''*'',
        ''Access-Control-Allow-Methods'' \<mapsto> ''GET, OPTIONS'',
        ''Access-Control-Allow-Headers'' \<mapsto> ''*'',
        ''Content-Type'' \<mapsto> ''image/gif'',
        ''Cache-Control'' \<mapsto> ''public, max-age=31536000, immutable'')"
  by (simp add: set_media_headers_def set_header_def Let_def)

lemma serve_media_local_hit:
  "readFile e (resolve_media e f) = Inr stored \<Longrightarrow>
   serve_media e c f = (c_body c (Some stored) 200, [ReadFile (resolve_media e f)])"
  by (simp add: serve_media_def Let_def)

lemma serve_media_local_miss:
  "readFile e (resolve_media e f) = Inl err \<Longrightarrow>
   serve_media e c f =
     (fst (fetch_cdn e c f),
      ReadFile (resolve_media e f)
      # (if code err \<noteq> Some ''ENOENT''
         then [ConsoleError ''Error reading local file:'' (message err)] else [])
      @ snd (fetch_cdn e c f))"
  by (simp add: serve_media_def Let_def split: prod.split)

lemma get_media_headers_valid:
  "\<not> invalid_filename (param_filename c) \<Longrightarrow>
   headers (fst (get_media e c)) =
     (if status (fst (get_media e c)) = 200 then res_headers (set_media_headers c)
      else (res_headers (set_media_headers c))(''Content-Type'' \<mapsto> json_content_type))"
  by (simp add: get_media_def serve_media_def Let_def fetch_cdn_cases
       c_json_def c_body_def split: sum.split prod.split)

lemma get_media_status_400:
  "(status (fst (get_media e c)) = 400) = invalid_filename (param_filename c)"
  by (simp add: get_media_def serve_media_def Let_def fetch_cdn_cases
       c_json_def c_body_def split: sum.split prod.split)

lemma valid_0001: "\<not> invalid_filename (Some ''0001.gif'')"
  by (simp add: invalid_filename_def endsWith_def)

lemma valid_missing: "\<not> invalid_filename (Some ''missing.gif'')"
  by (simp add: invalid_filename_def endsWith_def)

lemma param_fresh_ctx: "param_filename (fresh_ctx p) = p"
  by (simp add: fresh_ctx_def)

subsection \<open>Validation\<close>

text \<open>
  C1. The \<^verbatim>\<open>GET\<close> handler answers 400 with the body
  \<^verbatim>\<open>{success: false, message: "Invalid filename"}\<close> exactly when the filename is absent
  or empty, contains \<^verbatim>\<open>..\<close>, contains \<^verbatim>\<open>/\<close>, or does not end with \<^verbatim>\<open>.gif\<close>;
  and then it has performed no effect at all: no read of the local folder and no fetch
  from the CDN.
\<close>

theorem invalid_filename_answers_400:
  "((status (fst (get_media e c)) = 400
      \<and> body (fst (get_media e c)) = Json False ''Invalid filename'')
     = spec_invalid (param_filename c))
   \<and> (spec_invalid (param_filename c) \<longrightarrow> snd (get_media e c) = [])"
  by (simp add: get_media_def invalid_filename_spec serve_media_def Let_def fetch_cdn_cases
       c_json_def c_body_def split: sum.split prod.split)

theorem invalid_filename_answers_400_witness:
  "spec_invalid (Some ''../etc/passwd'')
   \<and> status (fst (get_media env_cdn_hit (fresh_ctx (Some ''../etc/passwd'')))) = 400
   \<and> body (fst (get_media env_cdn_hit (fresh_ctx (Some ''../etc/passwd''))))
       = Json False ''Invalid filename''
   \<and> snd (get_media env_cdn_hit (fresh_ctx (Some ''../etc/passwd''))) = []"
proof -
  have rejected: "spec_invalid (Some ''../etc/passwd'')"
    by code_simp
  from invalid_filename_answers_400 [of env_cdn_hit "fresh_ctx (Some ''../etc/passwd'')"]
    rejected
  show ?thesis
    by (simp add: fresh_ctx_def)
qed

text \<open>
  C10. The bare extension \<^verbatim>\<open>.gif\<close> passes the test: the handler does not answer 400
  for it but goes on to resolution, which starts with the read of the file
  \<^verbatim>\<open>.gif\<close> in the local folder and, where the folder has no such file, goes on to
  the CDN.
\<close>

theorem dot_gif_passes_validation:
  "\<not> invalid_filename (Some ''.gif'')
   \<and> get_media e (c\<lparr>param_filename := Some ''.gif''\<rparr>)
       = serve_media e (set_media_headers (c\<lparr>param_filename := Some ''.gif''\<rparr>)) ''.gif''
   \<and> status (fst (get_media e (c\<lparr>param_filename := Some ''.gif''\<rparr>))) \<noteq> 400
   \<and> hd (snd (get_media e (c\<lparr>param_filename := Some ''.gif''\<rparr>)))
       = ReadFile (resolve_media e ''.gif'')
   \<and> snd (get_media env_cdn_hit (fresh_ctx (Some ''.gif'')))
       = [ReadFile ''/app/media/.gif'',
          AxiosGet ''https://v1.cdn.exercisedb.dev/media/.gif'' cdn_config]"
  by (simp add: get_media_def invalid_filename_def endsWith_def serve_media_def Let_def
       fetch_cdn_cases c_json_def c_body_def fresh_ctx_def env_cdn_hit_def enoent_def
       media_root_def cdn_url_def split: sum.split prod.split)

theorem dot_gif_passes_validation_witness:
  "status (fst (get_media env_cdn_down (fresh_ctx (Some ''.gif'')))) \<noteq> 400
   \<and> hd (snd (get_media env_cdn_down (fresh_ctx (Some ''.gif''))))
       = ReadFile ''/app/media/.gif''"
proof -
  have request: "(fresh_ctx None)\<lparr>param_filename := Some ''.gif''\<rparr> = fresh_ctx (Some ''.gif'')"
    by (simp add: fresh_ctx_def)
  have path: "resolve_media env_cdn_down ''.gif'' = ''/app/media/.gif''"
    by (simp add: env_cdn_down_def media_root_def)
  note served = dot_gif_passes_validation [of env_cdn_down "fresh_ctx None"]
  from served [THEN conjunct2, THEN conjunct2, THEN conjunct1]
    served [THEN conjunct2, THEN conjunct2, THEN conjunct2, THEN conjunct1]
  show ?thesis
    by (simp only: request path simp_thms)
qed

subsection \<open>Resolution\<close>

text \<open>
  C3. For a filename that passes the test and whose file the local read returns, the
  handler answers 200 with exactly the bytes read, and its only effect is that read:
  the CDN is not contacted.
\<close>

theorem local_hit_serves_local_bytes:
  assumes "\<not> invalid_filename (param_filename c)"
    and "param_filename c = Some f"
    and "readFile e (resolve_media e f) = Inr stored"
  shows "status (fst (get_media e c)) = 200
    \<and> body (fst (get_media e c)) = Raw stored
    \<and> snd (get_media e c) = [ReadFile (resolve_media e f)]
    \<and> filter is_remote_fetch (snd (get_media e c)) = []"
  using assms by (simp add: get_media_valid serve_media_local_hit c_body_def)

theorem local_hit_serves_local_bytes_witness:
  "status (fst (get_media env_local_hit (fresh_ctx (Some ''0001.gif'')))) = 200
   \<and> body (fst (get_media env_local_hit (fresh_ctx (Some ''0001.gif'')))) = Raw local_gif
   \<and> snd (get_media env_local_hit (fresh_ctx (Some ''0001.gif'')))
       = [ReadFile ''/app/media/0001.gif'']"
proof -
  have valid: "\<not> invalid_filename (param_filename (fresh_ctx (Some ''0001.gif'')))"
    by (simp add: param_fresh_ctx valid_0001)
  have hit: "readFile env_local_hit (resolve_media env_local_hit ''0001.gif'') = Inr local_gif"
    by (simp add: env_local_hit_def)
  from local_hit_serves_local_bytes [OF valid param_fresh_ctx hit]
  show ?thesis
    by (simp add: env_local_hit_def media_root_def)
qed

text \<open>
  C4. For a filename that passes the test, whose local read fails with \<^verbatim>\<open>ENOENT\<close>
  and for which the CDN answers 200, the handler answers 200 with exactly the CDN's
  bytes. Its effects are one read of the local file and then one fetch from the CDN,
  in that order and nothing else: the fetch is issued in the branch that has the
  failure of the read in hand.
\<close>

theorem cdn_hit_after_local_miss:
  assumes "\<not> invalid_filename (param_filename c)"
    and "param_filename c = Some f"
    and "readFile e (resolve_media e f) = Inl err"
    and "code err = Some ''ENOENT''"
    and "axios_get e (cdn_url f) cdn_config = Inr resp"
    and "resp_status resp = 200"
  shows "status (fst (get_media e c)) = 200
    \<and> body (fst (get_media e c)) = Raw (resp_data resp)
    \<and> snd (get_media e c) = [ReadFile (resolve_media e f), AxiosGet (cdn_url f) cdn_config]
    \<and> length (filter is_local_read (snd (get_media e c))) = 1
    \<and> length (filter is_remote_fetch (snd (get_media e c))) = 1"
  using assms
  by (simp add: get_media_valid serve_media_local_miss fetch_cdn_cases c_body_def)

theorem cdn_hit_after_local_miss_witness:
  "status (fst (get_media env_cdn_hit (fresh_ctx (Some ''0001.gif'')))) = 200
   \<and> body (fst (get_media env_cdn_hit (fresh_ctx (Some ''0001.gif'')))) = Raw cdn_gif
   \<and> snd (get_media env_cdn_hit (fresh_ctx (Some ''0001.gif'')))
       = [ReadFile ''/app/media/0001.gif'',
          AxiosGet ''https://v1.cdn.exercisedb.dev/media/0001.gif'' cdn_config]"
proof -
  have valid: "\<not> invalid_filename (param_filename (fresh_ctx (Some ''0001.gif'')))"
    by (simp add: param_fresh_ctx valid_0001)
  have miss: "readFile env_cdn_hit (resolve_media env_cdn_hit ''0001.gif'') = Inl enoent"
    by (simp add: env_cdn_hit_def)
  have absent: "code enoent = Some ''ENOENT''"
    by (simp add: enoent_def)
  have origin: "axios_get env_cdn_hit (cdn_url ''0001.gif'') cdn_config
      = Inr \<lparr>resp_status = 200, resp_data = cdn_gif\<rparr>"
    by (simp add: env_cdn_hit_def)
  have ok: "resp_status \<lparr>resp_status = 200, resp_data = cdn_gif\<rparr> = 200"
    by simp
  from cdn_hit_after_local_miss [OF valid param_fresh_ctx miss absent origin ok]
  show ?thesis
    by (simp add: env_cdn_hit_def media_root_def cdn_url_def)
qed

text \<open>
  C5. For a filename that passes the test and whose local read fails, every failure of
  the CDN (a rejection of the request, which is what a transport error and the expiry
  of the 15000 ms timeout are, or a status other than 200) gives the same answer: 404
  with the body \<^verbatim>\<open>{success: false, message: "Media not found"}\<close>. The handler returns
  a response, never an error, and two worlds that fail in different ways give equal
  responses, so the caller cannot tell the ways apart.
\<close>

theorem remote_failures_collapse_to_404:
  assumes "\<not> invalid_filename (param_filename c)"
    and "param_filename c = Some f"
    and "isl (readFile e (resolve_media e f))"
    and "remote_failed (axios_get e (cdn_url f) cdn_config)"
    and "isl (readFile e' (resolve_media e' f))"
    and "remote_failed (axios_get e' (cdn_url f) cdn_config)"
  shows "status (fst (get_media e c)) = 404
    \<and> body (fst (get_media e c)) = Json False ''Media not found''
    \<and> fst (get_media e' c) = fst (get_media e c)
    \<and> AxiosGet (cdn_url f) cdn_config \<in> set (snd (get_media e c))
    \<and> timeout cdn_config = 15000"
proof -
  obtain err where miss: "readFile e (resolve_media e f) = Inl err"
    using assms(3) by (auto simp: isl_def)
  then have r: "fst (get_media e c) = c_json (set_media_headers c) False ''Media not found'' 404"
    using assms(1,2,4) by (simp add: get_media_valid serve_media_local_miss fetch_cdn_failed)
  obtain err' where "readFile e' (resolve_media e' f) = Inl err'"
    using assms(5) by (auto simp: isl_def)
  then have r': "fst (get_media e' c) = c_json (set_media_headers c) False ''Media not found'' 404"
    using assms(1,2,6) by (simp add: get_media_valid serve_media_local_miss fetch_cdn_failed)
  have tried: "AxiosGet (cdn_url f) cdn_config \<in> set (snd (get_media e c))"
    using assms(1,2) miss
    by (simp add: get_media_valid serve_media_local_miss fetch_cdn_attempt)
  have budget: "timeout cdn_config = 15000"
    by (simp add: cdn_config_def)
  from r r' tried budget show ?thesis
    by (simp add: c_json_def)
qed

theorem remote_failures_collapse_to_404_witness:
  "status (fst (get_media env_cdn_down (fresh_ctx (Some ''missing.gif'')))) = 404
   \<and> body (fst (get_media env_cdn_down (fresh_ctx (Some ''missing.gif''))))
       = Json False ''Media not found''
   \<and> fst (get_media env_cdn_no_content (fresh_ctx (Some ''missing.gif'')))
       = fst (get_media env_cdn_down (fresh_ctx (Some ''missing.gif'')))"
proof -
  have valid: "\<not> invalid_filename (param_filename (fresh_ctx (Some ''missing.gif'')))"
    by (simp add: param_fresh_ctx valid_missing)
  have l1: "isl (readFile env_cdn_down (resolve_media env_cdn_down ''missing.gif''))"
    by (simp add: env_cdn_down_def)
  have r1: "remote_failed (axios_get env_cdn_down (cdn_url ''missing.gif'') cdn_config)"
    by (simp add: env_cdn_down_def remote_failed_def)
  have l2: "isl (readFile env_cdn_no_content (resolve_media env_cdn_no_content ''missing.gif''))"
    by (simp add: env_cdn_no_content_def)
  have r2: "remote_failed (axios_get env_cdn_no_content (cdn_url ''missing.gif'') cdn_config)"
    by (simp add: env_cdn_no_content_def remote_failed_def)
  from remote_failures_collapse_to_404 [OF valid param_fresh_ctx l1 r1 l2 r2]
  show ?thesis
    by blast
qed

text \<open>
  C6. For a filename that passes the test and whose local read fails with an error
  other than \<^verbatim>\<open>ENOENT\<close>, the handler logs the error's message and then attempts
  the fetch from the CDN: these are its first three effects, in this order. The
  response is the outcome of the CDN fetch alone, so the local error does not by itself
  produce an error response: where the CDN answers 200 the handler answers 200 with the
  CDN's bytes.
\<close>

theorem local_error_falls_back_to_cdn:
  assumes "\<not> invalid_filename (param_filename c)"
    and "param_filename c = Some f"
    and "readFile e (resolve_media e f) = Inl err"
    and "code err \<noteq> Some ''ENOENT''"
  shows "take 3 (snd (get_media e c))
      = [ReadFile (resolve_media e f),
         ConsoleError ''Error reading local file:'' (message err),
         AxiosGet (cdn_url f) cdn_config]
    \<and> fst (get_media e c) = fst (fetch_cdn e (set_media_headers c) f)
    \<and> (\<forall>resp. axios_get e (cdn_url f) cdn_config = Inr resp \<and> resp_status resp = 200
         \<longrightarrow> status (fst (get_media e c)) = 200
             \<and> body (fst (get_media e c)) = Raw (resp_data resp))"
  using assms
  by (simp add: get_media_valid serve_media_local_miss fetch_cdn_cases c_body_def
      split: sum.split)

theorem local_error_falls_back_to_cdn_witness:
  "take 3 (snd (get_media env_unreadable (fresh_ctx (Some ''0001.gif''))))
     = [ReadFile ''/app/media/0001.gif'',
        ConsoleError ''Error reading local file:'' ''permission denied'',
        AxiosGet ''https://v1.cdn.exercisedb.dev/media/0001.gif'' cdn_config]
   \<and> status (fst (get_media env_unreadable (fresh_ctx (Some ''0001.gif'')))) = 200
   \<and> body (fst (get_media env_unreadable (fresh_ctx (Some ''0001.gif'')))) = Raw cdn_gif"
proof -
  have valid: "\<not> invalid_filename (param_filename (fresh_ctx (Some ''0001.gif'')))"
    by (simp add: param_fresh_ctx valid_0001)
  have unreadable:
    "readFile env_unreadable (resolve_media env_unreadable ''0001.gif'') = Inl eacces"
    by (simp add: env_unreadable_def)
  have other: "code eacces \<noteq> Some ''ENOENT''"
    by (simp add: eacces_def)
  have origin: "axios_get env_unreadable (cdn_url ''0001.gif'') cdn_config
      = Inr \<lparr>resp_status = 200, resp_data = cdn_gif\<rparr>"
    by (simp add: env_unreadable_def)
  note fallback = local_error_falls_back_to_cdn [OF valid param_fresh_ctx unreadable other]
  have logged: "take 3 (snd (get_media env_unreadable (fresh_ctx (Some ''0001.gif''))))
     = [ReadFile ''/app/media/0001.gif'',
        ConsoleError ''Error reading local file:'' ''permission denied'',
        AxiosGet ''https://v1.cdn.exercisedb.dev/media/0001.gif'' cdn_config]"
    using fallback [THEN conjunct1]
    by (simp add: env_unreadable_def media_root_def cdn_url_def eacces_def)
  have served: "status (fst (get_media env_unreadable (fresh_ctx (Some ''0001.gif'')))) = 200
    \<and> body (fst (get_media env_unreadable (fresh_ctx (Some ''0001.gif'')))) = Raw cdn_gif"
    using fallback [THEN conjunct2, THEN conjunct2, rule_format,
        of "\<lparr>resp_status = 200, resp_data = cdn_gif\<rparr>"] origin
    by simp
  from logged served show ?thesis
    by simp
qed

text \<open>
  C7. Whatever the request and whatever the file system and the CDN do, failures
  included, the \<^verbatim>\<open>GET\<close> handler returns a response, and that response is one of
  three: 200 with a buffer (Found), 404 with the body "Media not found" (NotFound), or
  400 with the body "Invalid filename" (Invalid). The three statuses differ, so it is
  exactly one of them.
\<close>

theorem get_media_three_outcomes:
  "(status (fst (get_media e c)) = 200 \<and> (\<exists>b. body (fst (get_media e c)) = Raw b))
   \<or> (status (fst (get_media e c)) = 404
       \<and> body (fst (get_media e c)) = Json False ''Media not found'')
   \<or> (status (fst (get_media e c)) = 400
       \<and> body (fst (get_media e c)) = Json False ''Invalid filename'')"
  by (simp add: get_media_def serve_media_def Let_def fetch_cdn_cases
       c_json_def c_body_def split: sum.split prod.split)

theorem get_media_three_outcomes_witness:
  "status (fst (get_media env_cdn_no_content (fresh_ctx (Some ''0001.gif'')))) = 404
   \<and> body (fst (get_media env_cdn_no_content (fresh_ctx (Some ''0001.gif''))))
       = Json False ''Media not found''"
proof -
  have st: "status (fst (get_media env_cdn_no_content (fresh_ctx (Some ''0001.gif'')))) = 404"
    by (simp add: get_media_def valid_0001 fresh_ctx_def serve_media_def Let_def
        fetch_cdn_cases env_cdn_no_content_def c_json_def)
  from get_media_three_outcomes [of env_cdn_no_content "fresh_ctx (Some ''0001.gif'')"] st
  show ?thesis
    by simp
qed

subsection \<open>Headers\<close>

text \<open>
  The \<^verbatim>\<open>OPTIONS\<close> handler taken alone: whatever the filename, it would answer 204
  with no body and with the three CORS headers set, without any effect and without
  looking at the filename.
\<close>

lemma options_media_reply:
  "status (fst (options_media c)) = 204
   \<and> body (fst (options_media c)) = NoBody
   \<and> headers (fst (options_media c)) ''Access-Control-Allow-Origin'' = Some ''*''
   \<and> headers (fst (options_media c)) ''Access-Control-Allow-Methods'' = Some ''GET, OPTIONS''
   \<and> headers (fst (options_media c)) ''Access-Control-Allow-Headers'' = Some ''*''
   \<and> snd (options_media c) = []
   \<and> options_media (c\<lparr>param_filename := p\<rparr>) = options_media c"
  by (simp add: options_media_def Let_def set_header_def c_body_def)

text \<open>
  The reply of \<^verbatim>\<open>cors\<close> to an \<^verbatim>\<open>OPTIONS\<close> request does not depend on the rest
  of the chain: the handler of the route is never reached.
\<close>

lemma cors_options_skips_next: "cors OPTIONS requested next c = cors OPTIONS requested next' c"
  by (simp add: cors_def)

lemma options_request_general:
  "status (fst (options_request requested c)) = 204
   \<and> body (fst (options_request requested c)) = NoBody
   \<and> headers (fst (options_request requested c)) ''Access-Control-Allow-Origin'' = Some ''*''
   \<and> headers (fst (options_request requested c)) ''Access-Control-Allow-Methods''
       = Some ''GET,OPTIONS''
   \<and> headers (fst (options_request requested c)) ''Access-Control-Allow-Headers''
       = (if requested \<noteq> [] then Some (join_comma requested)
          else res_headers c ''Access-Control-Allow-Headers'')
   \<and> snd (options_request requested c) = []"
  by (simp add: options_request_def cors_def Let_def set_header_def delete_header_def
      append_header_def)

text \<open>
  C8 holds of the handler the route registers, not of the application: the claim puts
  \<^verbatim>\<open>Access-Control-Allow-Methods: GET, OPTIONS\<close> and
  \<^verbatim>\<open>Access-Control-Allow-Headers: *\<close> on the reply to every \<^verbatim>\<open>OPTIONS\<close> request
  to the media route, and the route's handler sets exactly these. The request
  \<^verbatim>\<open>OPTIONS /api/v1/media/anything.gif\<close> without an
  \<^verbatim>\<open>Access-Control-Request-Headers\<close> header is answered by \<^verbatim>\<open>cors\<close> instead:
  204, no body, no effect, \<^verbatim>\<open>Access-Control-Allow-Origin: *\<close>, but
  \<^verbatim>\<open>Access-Control-Allow-Methods: GET,OPTIONS\<close> and no
  \<^verbatim>\<open>Access-Control-Allow-Headers\<close> at all.
\<close>

theorem options_request_misses_handler_headers:
  "status (fst (options_request [] (fresh_ctx (Some ''anything.gif'')))) = 204
   \<and> body (fst (options_request [] (fresh_ctx (Some ''anything.gif'')))) = NoBody
   \<and> snd (options_request [] (fresh_ctx (Some ''anything.gif''))) = []
   \<and> headers (fst (options_request [] (fresh_ctx (Some ''anything.gif''))))
       ''Access-Control-Allow-Origin'' = Some ''*''
   \<and> headers (fst (options_request [] (fresh_ctx (Some ''anything.gif''))))
       ''Access-Control-Allow-Methods'' = Some ''GET,OPTIONS''
   \<and> headers (fst (options_request [] (fresh_ctx (Some ''anything.gif''))))
       ''Access-Control-Allow-Headers'' = None
   \<and> headers (fst (options_media (fresh_ctx (Some ''anything.gif''))))
       ''Access-Control-Allow-Methods'' = Some ''GET, OPTIONS''
   \<and> headers (fst (options_media (fresh_ctx (Some ''anything.gif''))))
       ''Access-Control-Allow-Headers'' = Some ''*''"
  by (simp add: options_request_def cors_def Let_def set_header_def delete_header_def
      options_media_def c_body_def fresh_ctx_def)

text \<open>
  C2, as stated, fails: the claim puts the three CORS headers on every response of the
  \<^verbatim>\<open>GET\<close> handler, the 400 included. The handler returns the 400 before it sets
  any header: for the name \<^verbatim>\<open>notes.txt\<close>, on a pending response without headers, the
  400 response has neither \<^verbatim>\<open>Access-Control-Allow-Methods\<close> nor
  \<^verbatim>\<open>Access-Control-Allow-Headers\<close>.
\<close>

theorem invalid_reply_without_cors_headers:
  "status (fst (get_media env_cdn_hit (fresh_ctx (Some ''notes.txt'')))) = 400
   \<and> headers (fst (get_media env_cdn_hit (fresh_ctx (Some ''notes.txt''))))
       ''Access-Control-Allow-Methods'' = None
   \<and> headers (fst (get_media env_cdn_hit (fresh_ctx (Some ''notes.txt''))))
       ''Access-Control-Allow-Headers'' = None"
  by (simp add: get_media_def invalid_filename_def endsWith_def fresh_ctx_def c_json_def)

text \<open>
  C2, amended. Every response of the \<^verbatim>\<open>GET\<close> handler whose status is 200 or 404
  carries the three headers \<^verbatim>\<open>Access-Control-Allow-Origin: *\<close>,
  \<^verbatim>\<open>Access-Control-Allow-Methods: GET, OPTIONS\<close> and
  \<^verbatim>\<open>Access-Control-Allow-Headers: *\<close>; on a 400 the handler adds nothing but the
  JSON content type to the headers it found on the pending response.
\<close>

theorem cors_headers_on_200_and_404:
  "(status (fst (get_media e c)) = 200 \<or> status (fst (get_media e c)) = 404
     \<longrightarrow> headers (fst (get_media e c)) ''Access-Control-Allow-Origin'' = Some ''*''
       \<and> headers (fst (get_media e c)) ''Access-Control-Allow-Methods'' = Some ''GET, OPTIONS''
       \<and> headers (fst (get_media e c)) ''Access-Control-Allow-Headers'' = Some ''*'')
   \<and> (status (fst (get_media e c)) = 400
     \<longrightarrow> headers (fst (get_media e c))
         = (res_headers c)(''Content-Type'' \<mapsto> json_content_type))"
proof (intro conjI impI)
  assume "status (fst (get_media e c)) = 200 \<or> status (fst (get_media e c)) = 404"
  then have "status (fst (get_media e c)) \<noteq> 400"
    by auto
  then have valid: "\<not> invalid_filename (param_filename c)"
    by (simp add: get_media_status_400)
  show "headers (fst (get_media e c)) ''Access-Control-Allow-Origin'' = Some ''*''"
    by (simp add: get_media_headers_valid [OF valid] res_headers_set_media_headers)
  show "headers (fst (get_media e c)) ''Access-Control-Allow-Methods'' = Some ''GET, OPTIONS''"
    by (simp add: get_media_headers_valid [OF valid] res_headers_set_media_headers)
  show "headers (fst (get_media e c)) ''Access-Control-Allow-Headers'' = Some ''*''"
    by (simp add: get_media_headers_valid [OF valid] res_headers_set_media_headers)
next
  assume "status (fst (get_media e c)) = 400"
  then have "invalid_filename (param_filename c)"
    by (simp add: get_media_status_400)
  then show "headers (fst (get_media e c))
      = (res_headers c)(''Content-Type'' \<mapsto> json_content_type)"
    by (simp add: get_media_def c_json_def)
qed

theorem cors_headers_on_200_and_404_witness:
  "status (fst (get_media env_cdn_down (fresh_ctx (Some ''missing.gif'')))) = 404
   \<and> headers (fst (get_media env_cdn_down (fresh_ctx (Some ''missing.gif''))))
       ''Access-Control-Allow-Origin'' = Some ''*''
   \<and> headers (fst (get_media env_cdn_down (fresh_ctx (Some ''missing.gif''))))
       ''Access-Control-Allow-Methods'' = Some ''GET, OPTIONS''
   \<and> headers (fst (get_media env_cdn_down (fresh_ctx (Some ''missing.gif''))))
       ''Access-Control-Allow-Headers'' = Some ''*''"
proof -
  have st: "status (fst (get_media env_cdn_down (fresh_ctx (Some ''missing.gif'')))) = 404"
    by (simp add: get_media_def valid_missing fresh_ctx_def serve_media_def Let_def
        fetch_cdn_cases env_cdn_down_def c_json_def)
  from cors_headers_on_200_and_404 [of env_cdn_down "fresh_ctx (Some ''missing.gif'')"] st
  show ?thesis
    by simp
qed

text \<open>
  C9, as stated, fails: the claim puts \<^verbatim>\<open>Content-Type: image/gif\<close> on the 404
  responses. The handler does set it before resolution, but it sends the 404 with the
  JSON responder, which stamps its own content type over it: for \<^verbatim>\<open>missing.gif\<close>,
  absent from the local folder and with the CDN timing out, the 404 response goes out
  with the JSON content type.
\<close>

theorem not_found_reply_is_json_typed:
  "status (fst (get_media env_cdn_down (fresh_ctx (Some ''missing.gif'')))) = 404
   \<and> headers (fst (get_media env_cdn_down (fresh_ctx (Some ''missing.gif''))))
       ''Content-Type'' = Some json_content_type
   \<and> headers (fst (get_media env_cdn_down (fresh_ctx (Some ''missing.gif''))))
       ''Content-Type'' \<noteq> Some ''image/gif''"
  by (simp add: get_media_def valid_missing fresh_ctx_def serve_media_def Let_def
        fetch_cdn_cases env_cdn_down_def c_json_def json_content_type_def)

text \<open>
  C9, amended. For every filename that passes the test, the handler sets
  \<^verbatim>\<open>Content-Type: image/gif\<close> and
  \<^verbatim>\<open>Cache-Control: public, max-age=31536000, immutable\<close> on the pending response
  before it attempts resolution: resolution runs on the context that holds them. The
  \<^verbatim>\<open>Cache-Control\<close> header is therefore on every response that follows, the 404
  responses as well as the 200 responses. \<^verbatim>\<open>Content-Type\<close> is \<^verbatim>\<open>image/gif\<close> on
  the 200 responses and the JSON content type on the 404 responses.
\<close>

theorem media_headers_set_before_resolution:
  assumes "\<not> invalid_filename (param_filename c)"
    and "param_filename c = Some f"
  shows "get_media e c = serve_media e (set_media_headers c) f
    \<and> res_headers (set_media_headers c) ''Content-Type'' = Some ''image/gif''
    \<and> res_headers (set_media_headers c) ''Cache-Control''
        = Some ''public, max-age=31536000, immutable''
    \<and> headers (fst (get_media e c)) ''Cache-Control''
        = Some ''public, max-age=31536000, immutable''
    \<and> (status (fst (get_media e c)) = 200
         \<longrightarrow> headers (fst (get_media e c)) ''Content-Type'' = Some ''image/gif'')
    \<and> (status (fst (get_media e c)) = 404
         \<longrightarrow> headers (fst (get_media e c)) ''Content-Type'' = Some json_content_type)"
proof -
  have entered: "get_media e c = serve_media e (set_media_headers c) f"
    using assms by (rule get_media_valid)
  have pending: "res_headers (set_media_headers c) ''Content-Type'' = Some ''image/gif''
    \<and> res_headers (set_media_headers c) ''Cache-Control''
        = Some ''public, max-age=31536000, immutable''"
    by (simp add: res_headers_set_media_headers)
  have sent: "headers (fst (get_media e c)) ''Cache-Control''
        = Some ''public, max-age=31536000, immutable''
    \<and> (status (fst (get_media e c)) = 200
         \<longrightarrow> headers (fst (get_media e c)) ''Content-Type'' = Some ''image/gif'')
    \<and> (status (fst (get_media e c)) = 404
         \<longrightarrow> headers (fst (get_media e c)) ''Content-Type'' = Some json_content_type)"
    by (simp add: get_media_headers_valid [OF assms(1)] res_headers_set_media_headers)
  from entered pending sent show ?thesis
    by blast
qed

theorem media_headers_set_before_resolution_witness:
  "status (fst (get_media env_cdn_404 (fresh_ctx (Some ''missing.gif'')))) = 404
   \<and> headers (fst (get_media env_cdn_404 (fresh_ctx (Some ''missing.gif''))))
       ''Cache-Control'' = Some ''public, max-age=31536000, immutable''
   \<and> headers (fst (get_media env_cdn_404 (fresh_ctx (Some ''missing.gif''))))
       ''Content-Type'' = Some ''application/json''"
proof -
  have valid: "\<not> invalid_filename (param_filename (fresh_ctx (Some ''missing.gif'')))"
    by (simp add: param_fresh_ctx valid_missing)
  have st: "status (fst (get_media env_cdn_404 (fresh_ctx (Some ''missing.gif'')))) = 404"
    by (simp add: get_media_def valid_missing fresh_ctx_def serve_media_def Let_def
        fetch_cdn_cases env_cdn_404_def c_json_def)
  note sent = media_headers_set_before_resolution [OF valid param_fresh_ctx, of env_cdn_404]
  from sent [THEN conjunct2, THEN conjunct2, THEN conjunct2] st
  show ?thesis
    by (simp add: json_content_type_def)
qed

end
